theory Spec2Isabelle
  imports Main "HOL-Library.Multiset"
begin

section \<open>JavaScript values and array operations used by the dashboard\<close>

text \<open>
  A string field of a decoded API record is a \<open>string option\<close>: \<open>None\<close> is the field
  read as \<open>undefined\<close>. The operator \<open>a || b\<close> yields \<open>a\<close> when \<open>a\<close> is truthy and
  \<open>b\<close> otherwise; \<open>undefined\<close> and the empty string are the falsy values here.
\<close>

definition truthy :: "string option \<Rightarrow> bool" where
  "truthy v = (case v of None \<Rightarrow> False | Some s \<Rightarrow> s \<noteq> [])"

definition js_or :: "string option \<Rightarrow> string option \<Rightarrow> string option" where
  "js_or a b = (if truthy a then a else b)"

text \<open>\<open>s || d\<close> with a string literal \<open>d\<close> on the right.\<close>

definition or_default :: "string option \<Rightarrow> string \<Rightarrow> string" where
  "or_default v d = (case v of None \<Rightarrow> d | Some s \<Rightarrow> if s = [] then d else s)"

text \<open>\<open>n || d\<close> on numbers: \<open>None\<close> is \<open>undefined\<close> or \<open>NaN\<close>; zero is falsy as well.\<close>

definition num_or :: "'a::zero option \<Rightarrow> 'a \<Rightarrow> 'a" where
  "num_or v d = (case v of None \<Rightarrow> d | Some n \<Rightarrow> if n = 0 then d else n)"

text \<open>
  \<open>Array.prototype.slice(start, end)\<close>: a negative index counts from the end, every
  index is clamped to the array, and an absent \<open>end\<close> is the length.
\<close>

definition rel_index :: "int \<Rightarrow> nat \<Rightarrow> nat" where
  "rel_index i len = (if i < 0 then nat (max (int len + i) 0) else min (nat i) len)"

definition slice :: "int \<Rightarrow> int option \<Rightarrow> 'a list \<Rightarrow> 'a list" where
  "slice start end xs =
     (let len = length xs;
          k = rel_index start len;
          final = (case end of None \<Rightarrow> len | Some e \<Rightarrow> rel_index e len)
      in take (final - k) (drop k xs))"

text \<open>\<open>data?.[0]\<close>: the first element of an array that may be absent or empty.\<close>

definition first_elem :: "'a list option \<Rightarrow> 'a option" where
  "first_elem d = (case d of None \<Rightarrow> None | Some [] \<Rightarrow> None | Some (x # _) \<Rightarrow> Some x)"

text \<open>
  A \<open>Set\<close> of strings keeps its members in insertion order, each once; it is the list
  of its members in that order.
\<close>

definition Set_add :: "'a \<Rightarrow> 'a list \<Rightarrow> 'a list" where
  "Set_add x s = (if x \<in> set s then s else s @ [x])"

definition Set_new :: "'a list \<Rightarrow> 'a list" where
  "Set_new xs = fold Set_add xs []"

definition Set_size :: "'a list \<Rightarrow> nat" where
  "Set_size s = length s"

definition Array_from :: "'a list \<Rightarrow> 'a list" where
  "Array_from s = s"

section \<open>Records of the API (api.ts)\<close>

text \<open>
  The field \<open>text\<close> of a tweet is named \<open>tweet_text\<close>. The two timestamps of a record
  may be absent from a payload.
\<close>

record Tweet =
  tweet_id :: string
  query :: string
  user_handle :: string
  user_name :: string
  tweet_text :: string
  link :: string
  tweet_created_at :: "string option"
  fetched_at :: "string option"

record News =
  link :: string
  source :: string
  news_created_at :: "string option"
  fetched_at :: "string option"

record DailyStat =
  day :: string
  tweets :: int

record QueryStat =
  query :: string
  total :: int

section \<open>View derivations of the analysis page (App.tsx)\<close>

text \<open>\<open>DailyChart\<close>: the series \<open>mapped\<close> handed to the bar chart.\<close>

definition DailyChart :: "DailyStat list \<Rightarrow> DailyStat list" where
  "DailyChart data =
     slice (- 14) None (rev (map (\<lambda>d. \<lparr>day = day d, tweets = tweets d\<rparr>) data))"

text \<open>\<open>QueryPie\<close>: the series \<open>trimmed\<close> handed to the pie chart.\<close>

definition QueryPie :: "QueryStat list \<Rightarrow> QueryStat list" where
  "QueryPie data = slice 0 (Some 8) data"

definition queries :: "Tweet list option \<Rightarrow> string list" where
  "queries data =
     (case data of
        None \<Rightarrow> []
      | Some ts \<Rightarrow> Array_from (fold (\<lambda>t s. Set_add (Tweet.query t) s) ts []))"

record Stats =
  totalTweets :: nat
  uniqueQueries :: nat
  lastFetched :: "string option"
  lastNews :: "string option"

definition stats :: "Tweet list option \<Rightarrow> News list option \<Rightarrow> Stats" where
  "stats tweetsData newsData =
     \<lparr>totalTweets = num_or (map_option length tweetsData) 0,
      uniqueQueries =
        Set_size (Set_new (map Tweet.query (case tweetsData of None \<Rightarrow> [] | Some ts \<Rightarrow> ts))),
      lastFetched =
        js_or (Option.bind (first_elem tweetsData) Tweet.fetched_at)
              (Option.bind (first_elem tweetsData) tweet_created_at),
      lastNews =
        js_or (Option.bind (first_elem newsData) News.fetched_at)
              (Option.bind (first_elem newsData) news_created_at)\<rparr>"

record TimelinePoint =
  ts :: "string option"
  query :: string

definition timeline :: "Tweet list option \<Rightarrow> TimelinePoint list" where
  "timeline data =
     (case data of
        None \<Rightarrow> []
      | Some tws \<Rightarrow>
          slice 0 (Some 50)
            (map (\<lambda>t. \<lparr>TimelinePoint.ts = js_or (tweet_created_at t) (Tweet.fetched_at t),
                       TimelinePoint.query = Tweet.query t\<rparr>) tws))"

section \<open>The API client (api.ts)\<close>

text \<open>
  Decimal notation of a number, as \<open>String(n)\<close> and a template literal print an
  integer (JavaScript prints integers below \<open>10^21\<close> this way; status codes and the
  \<open>limit\<close> parameter are such integers).
\<close>

definition digit :: "nat \<Rightarrow> char" where
  "digit d = ''0123456789'' ! d"

function decimal :: "nat \<Rightarrow> string" where
  "decimal n = (if 10 \<le> n then decimal (n div 10) @ [digit (n mod 10)] else [digit n])"
  by pat_completeness auto
termination
  by (relation "measure (\<lambda>n. n)") auto

definition Number_toString :: "int \<Rightarrow> string" where
  "Number_toString i = (if 0 \<le> i then decimal (nat i) else CHR ''-'' # decimal (nat (- i)))"

text \<open>A value of the \<open>search\<close> record of a request.\<close>

datatype scalar = Undefined | Null | Str string | Num int

fun js_String :: "scalar \<Rightarrow> string" where
  "js_String Undefined = ''undefined''"
| "js_String Null = ''null''"
| "js_String (Str s) = s"
| "js_String (Num n) = Number_toString n"

text \<open>
  A \<open>URL\<close> object: what precedes the query, and the name-value pairs of its
  \<open>searchParams\<close>. \<open>URLSearchParams.set\<close> overwrites the first pair of that name and
  removes the others, or appends a new pair.
\<close>

record URL =
  location :: string
  searchParams :: "(string \<times> string) list"

fun searchParams_set :: "string \<Rightarrow> string \<Rightarrow> (string \<times> string) list \<Rightarrow> (string \<times> string) list" where
  "searchParams_set k v [] = [(k, v)]"
| "searchParams_set k v (p # ps) =
     (if fst p = k then (k, v) # filter (\<lambda>e. fst e \<noteq> k) ps
      else p # searchParams_set k v ps)"

definition searchParams_get :: "string \<Rightarrow> (string \<times> string) list \<Rightarrow> string option" where
  "searchParams_get k ps = map_of ps k"

definition searchParams_has :: "string \<Rightarrow> (string \<times> string) list \<Rightarrow> bool" where
  "searchParams_has k ps = (k \<in> set (map fst ps))"

record Response =
  status :: nat
  body :: string

text \<open>\<open>Response.ok\<close> is true for the statuses 200 to 299.\<close>

definition ok :: "Response \<Rightarrow> bool" where
  "ok res = (200 \<le> status res \<and> status res \<le> 299)"

record FetchCall =
  call_url :: string
  call_headers :: "(string \<times> string) list"

text \<open>
  What the browser supplies: the \<open>URL\<close> constructor (\<open>None\<close> when it throws on an
  invalid URL), the serialisation of a URL, the network (\<open>None\<close> when the transport
  fails) and the JSON decoder (\<open>None\<close> when the body is not JSON).
\<close>

record 'j Platform =
  new_URL :: "string \<Rightarrow> string \<Rightarrow> URL option"
  URL_toString :: "URL \<Rightarrow> string"
  fetch :: "FetchCall \<Rightarrow> Response option"
  JSON_parse :: "string \<Rightarrow> 'j option"

record Env =
  VITE_API_BASE_URL :: "string option"
  VITE_API_TOKEN :: "string option"

definition API_BASE_URL :: "Env \<Rightarrow> string" where
  "API_BASE_URL env = or_default (VITE_API_BASE_URL env) []"

definition API_TOKEN :: "Env \<Rightarrow> string" where
  "API_TOKEN env = or_default (VITE_API_TOKEN env) []"

datatype error = Error string | TypeError | NetworkError | SyntaxError

text \<open>The callback of \<open>Object.entries(search).forEach\<close>, and the loop.\<close>

definition set_entry :: "string \<times> scalar \<Rightarrow> URL \<Rightarrow> URL" where
  "set_entry e url =
     (case e of (k, v) \<Rightarrow>
        if v \<noteq> Undefined \<and> v \<noteq> Null
        then url\<lparr>searchParams := searchParams_set k (js_String v) (searchParams url)\<rparr>
        else url)"

definition set_entries :: "(string \<times> scalar) list option \<Rightarrow> URL \<Rightarrow> URL" where
  "set_entries search url = (case search of None \<Rightarrow> url | Some es \<Rightarrow> fold set_entry es url)"

text \<open>
  \<open>request\<close> returns its outcome (\<open>Inl\<close> what it throws, \<open>Inr\<close> the decoded body)
  and the network calls it has made, in order.
\<close>

definition request ::
  "'j Platform \<Rightarrow> Env \<Rightarrow> string \<Rightarrow> (string \<times> scalar) list option \<Rightarrow> (error + 'j) \<times> FetchCall list" where
  "request p env path search =
     (if API_BASE_URL env = []
      then (Inl (Error ''API base URL is not set (VITE_API_BASE_URL).''), [])
      else (case new_URL p path (API_BASE_URL env) of
             None \<Rightarrow> (Inl TypeError, [])
           | Some url0 \<Rightarrow>
               (let url = set_entries search url0;
                    call = \<lparr>call_url = URL_toString p url,
                            call_headers = [(''Authorization'', ''Bearer '' @ API_TOKEN env)]\<rparr>
                in (case fetch p call of
                      None \<Rightarrow> (Inl NetworkError, [call])
                    | Some res \<Rightarrow>
                        (if \<not> ok res
                         then (Inl (Error (''API '' @ decimal (status res) @ '': '' @ body res)),
                               [call])
                         else (case JSON_parse p (body res) of
                                 None \<Rightarrow> (Inl SyntaxError, [call])
                               | Some j \<Rightarrow> (Inr j, [call])))))))"

definition fetchTweets ::
  "'j Platform \<Rightarrow> Env \<Rightarrow> (string \<times> scalar) list option \<Rightarrow> (error + 'j) \<times> FetchCall list" where
  "fetchTweets p env params = request p env ''/tweets'' params"

definition fetchNews :: "'j Platform \<Rightarrow> Env \<Rightarrow> (error + 'j) \<times> FetchCall list" where
  "fetchNews p env = request p env ''/news'' None"

definition fetchDailyStats :: "'j Platform \<Rightarrow> Env \<Rightarrow> (error + 'j) \<times> FetchCall list" where
  "fetchDailyStats p env = request p env ''/stats/daily'' None"

definition fetchTopQueries ::
  "'j Platform \<Rightarrow> Env \<Rightarrow> int option \<Rightarrow> (error + 'j) \<times> FetchCall list" where
  "fetchTopQueries p env limit =
     request p env ''/stats/top-queries''
       (Some [(''limit'', Num (case limit of None \<Rightarrow> 10 | Some l \<Rightarrow> l))])"

section \<open>The live feed (App.tsx, LiveFeed)\<close>

datatype kind = KTweet | KNews

text \<open>The field \<open>text\<close> of an item is named \<open>item_text\<close>.\<close>

record Item =
  kind :: kind
  item_text :: string
  link :: string
  ts :: "string option"
  meta :: string

datatype filter_type = FSite | FPlace | FPerson | FAll

text \<open>The category filter \<open>{type, value}\<close>.\<close>

record Filter =
  ftype :: filter_type
  fvalue :: "string option"

text \<open>The bullet character of the tweet label, in UTF-8.\<close>

definition bullet :: string where
  "bullet = [CHR 0xE2, CHR 0x80, CHR 0xA2]"

definition tweet_item :: "Tweet \<Rightarrow> Item" where
  "tweet_item t =
     \<lparr>kind = KTweet, item_text = tweet_text t, link = Tweet.link t,
      ts = js_or (tweet_created_at t) (Tweet.fetched_at t),
      meta = user_name t @ '' '' @ bullet @ '' '' @ Tweet.query t\<rparr>"

definition news_item :: "News \<Rightarrow> Item" where
  "news_item n =
     \<lparr>kind = KNews, item_text = News.link n, link = News.link n,
      ts = js_or (news_created_at n) (News.fetched_at n),
      meta = or_default (Some (source n)) ''Haber''\<rparr>"

definition push :: "'a list \<Rightarrow> 'a \<Rightarrow> 'a list" where
  "push xs x = xs @ [x]"

definition or_empty :: "'a list option \<Rightarrow> 'a list" where
  "or_empty d = (case d of None \<Rightarrow> [] | Some xs \<Rightarrow> xs)"

definition items :: "Tweet list option \<Rightarrow> News list option \<Rightarrow> Item list" where
  "items tweetsData newsData =
     fold (\<lambda>n acc. push acc (news_item n)) (or_empty newsData)
       (fold (\<lambda>t acc. push acc (tweet_item t)) (or_empty tweetsData) [])"

text \<open>\<open>String.prototype.includes\<close>: the needle occurs as a contiguous part.\<close>

fun starts_with :: "'a list \<Rightarrow> 'a list \<Rightarrow> bool" where
  "starts_with hs [] = True"
| "starts_with [] (n # ns) = False"
| "starts_with (h # hs) (n # ns) = (h = n \<and> starts_with hs ns)"

fun str_includes :: "'a list \<Rightarrow> 'a list \<Rightarrow> bool" where
  "str_includes [] needle = starts_with [] needle"
| "str_includes (h # hs) needle = (starts_with (h # hs) needle \<or> str_includes hs needle)"

text \<open>
  \<open>normalize\<close>, over the browser's \<open>toLowerCase\<close>, and the predicate of
  \<open>items.filter\<close>.
\<close>

definition normalize :: "(string \<Rightarrow> string) \<Rightarrow> string option \<Rightarrow> string" where
  "normalize toLowerCase v = toLowerCase (or_default v [])"

definition keep :: "(string \<Rightarrow> string) \<Rightarrow> Filter \<Rightarrow> Item \<Rightarrow> bool" where
  "keep toLowerCase f it =
     (if ftype f = FAll then True
      else let val = normalize toLowerCase (fvalue f) in
        if val = [] then True
        else if ftype f = FSite
          then str_includes (normalize toLowerCase (Some (meta it))) val
               \<or> str_includes (normalize toLowerCase (Some (item_text it))) val
        else if ftype f = FPlace \<or> ftype f = FPerson
          then str_includes (normalize toLowerCase (Some (item_text it))) val
               \<or> str_includes (normalize toLowerCase (Some (meta it))) val
        else True)"

definition filtered ::
  "(string \<Rightarrow> string) \<Rightarrow> Tweet list option \<Rightarrow> News list option \<Rightarrow> Filter \<Rightarrow> Item list" where
  "filtered toLowerCase tweetsData newsData f =
     filter (keep toLowerCase f) (items tweetsData newsData)"

text \<open>
  \<open>new Date(ts).getTime() || 0\<close>, over the browser's date parser (\<open>None\<close> is
  \<open>NaN\<close>, which an absent \<open>ts\<close> gives as well), and the comparator of the sort.
\<close>

definition time_of :: "(string \<Rightarrow> int option) \<Rightarrow> Item \<Rightarrow> int" where
  "time_of getTime it = num_or (case Item.ts it of None \<Rightarrow> None | Some s \<Rightarrow> getTime s) 0"

definition compare_ts :: "(string \<Rightarrow> int option) \<Rightarrow> Item \<Rightarrow> Item \<Rightarrow> int" where
  "compare_ts getTime a b = time_of getTime b - time_of getTime a"

text \<open>
  \<open>Array.prototype.sort\<close> is stable: elements that compare equal keep their order.
\<close>

fun insert_by :: "('a \<Rightarrow> 'a \<Rightarrow> int) \<Rightarrow> 'a \<Rightarrow> 'a list \<Rightarrow> 'a list" where
  "insert_by cmp x [] = [x]"
| "insert_by cmp x (y # ys) = (if cmp x y \<le> 0 then x # y # ys else y # insert_by cmp x ys)"

definition Array_sort :: "('a \<Rightarrow> 'a \<Rightarrow> int) \<Rightarrow> 'a list \<Rightarrow> 'a list" where
  "Array_sort cmp xs = foldr (insert_by cmp) xs []"

definition sorted_feed ::
  "(string \<Rightarrow> string) \<Rightarrow> (string \<Rightarrow> int option) \<Rightarrow> Tweet list option \<Rightarrow> News list option
     \<Rightarrow> Filter \<Rightarrow> Item list" where
  "sorted_feed toLowerCase getTime tweetsData newsData f =
     Array_sort (compare_ts getTime) (filtered toLowerCase tweetsData newsData f)"

definition entries ::
  "(string \<Rightarrow> string) \<Rightarrow> (string \<Rightarrow> int option) \<Rightarrow> Tweet list option \<Rightarrow> News list option
     \<Rightarrow> Filter \<Rightarrow> Item list" where
  "entries toLowerCase getTime tweetsData newsData f =
     slice 0 (Some 10) (sorted_feed toLowerCase getTime tweetsData newsData f)"

section \<open>Properties in the words of the specification\<close>

text \<open>
  First-seen order: the elements at the positions where a value occurs for the first
  time, in the order of these positions.
\<close>

definition first_seen :: "'a list \<Rightarrow> 'a list" where
  "first_seen qs =
     map (\<lambda>i. qs ! i) (filter (\<lambda>i. qs ! i \<notin> set (take i qs)) [0..<length qs])"

text \<open>An entry of a parameter record has a present value: neither undefined nor null.\<close>

definition present :: "string \<times> scalar \<Rightarrow> bool" where
  "present e = (snd e \<noteq> Undefined \<and> snd e \<noteq> Null)"

text \<open>
  An item matches a category filter when the filter is of kind all, or its value is
  absent or empty, or the lower-cased label or text of the item contains the lower-cased
  value.
\<close>

definition matches :: "(string \<Rightarrow> string) \<Rightarrow> Filter \<Rightarrow> Item \<Rightarrow> bool" where
  "matches toLowerCase f it =
     (ftype f = FAll \<or>
      (case fvalue f of
         None \<Rightarrow> True
       | Some v \<Rightarrow>
           v = []
           \<or> str_includes (toLowerCase (meta it)) (toLowerCase v)
           \<or> str_includes (toLowerCase (item_text it)) (toLowerCase v)))"

section \<open>A concrete browser, configuration and feed\<close>

text \<open>Instances on which the definitions above are evaluated.\<close>

definition example_platform :: "string Platform" where
  "example_platform =
     \<lparr>new_URL = (\<lambda>path base. Some \<lparr>location = base @ path, searchParams = []\<rparr>),
      URL_toString =
        (\<lambda>u. location u @
           (case searchParams u of
              [] \<Rightarrow> []
            | e # es \<Rightarrow> ''?'' @ fst e @ ''='' @ snd e
                        @ concat (map (\<lambda>e. ''&'' @ fst e @ ''='' @ snd e) es))),
      fetch =
        (\<lambda>c. if call_url c = ''http://api/news'' then Some \<lparr>status = 500, body = ''boom''\<rparr>
              else Some \<lparr>status = 200, body = ''[]''\<rparr>),
      JSON_parse = (\<lambda>s. Some s)\<rparr>"

definition example_env :: Env where
  "example_env = \<lparr>VITE_API_BASE_URL = Some ''http://api'', VITE_API_TOKEN = Some ''secret''\<rparr>"

definition example_search :: "(string \<times> scalar) list" where
  "example_search = [(''q'', Undefined), (''search'', Str ''abc''), (''n'', Null), (''limit'', Num 12)]"

definition example_toLowerCase :: "string \<Rightarrow> string" where
  "example_toLowerCase s =
     map (\<lambda>c. case map_of (zip ''ABCDEFGHIJKLMNOPQRSTUVWXYZ'' ''abcdefghijklmnopqrstuvwxyz'') c of
                 None \<Rightarrow> c | Some d \<Rightarrow> d) s"

definition example_getTime :: "string \<Rightarrow> int option" where
  "example_getTime s =
     map_of [(''2024-01-01'', 1704067200000), (''2024-01-02'', 1704153600000),
             (''2024-01-03'', 1704240000000), (''2024-01-04'', 1704326400000)] s"

definition example_tweets :: "Tweet list" where
  "example_tweets =
     [\<lparr>tweet_id = ''1'', Tweet.query = ''gundem'', user_handle = ''a'', user_name = ''Ali'',
       tweet_text = ''see Example.com/x'', Tweet.link = ''t1'',
       tweet_created_at = Some ''2024-01-02'', Tweet.fetched_at = Some ''2024-01-04''\<rparr>,
      \<lparr>tweet_id = ''2'', Tweet.query = ''haber'', user_handle = ''b'', user_name = ''Banu'',
       tweet_text = ''nothing here'', Tweet.link = ''t2'',
       tweet_created_at = Some ''2024-01-03'', Tweet.fetched_at = Some ''2024-01-04''\<rparr>,
      \<lparr>tweet_id = ''3'', Tweet.query = ''example.com'', user_handle = ''c'', user_name = ''Can'',
       tweet_text = ''hello'', Tweet.link = ''t3'',
       tweet_created_at = None, Tweet.fetched_at = Some ''not a date''\<rparr>]"

definition example_news :: "News list" where
  "example_news =
     [\<lparr>News.link = ''http://example.com/n1'', source = ''site'',
       news_created_at = Some ''2024-01-04'', News.fetched_at = Some ''2024-01-04''\<rparr>,
      \<lparr>News.link = ''http://other.org/n2'', source = ''EXAMPLE.COM'',
       news_created_at = Some [], News.fetched_at = Some ''2024-01-01''\<rparr>]"

section \<open>Facts about the array operations\<close>

lemma slice_from_start: "slice 0 (Some (int n)) xs = take n xs"
  by (simp add: slice_def rel_index_def min_def Let_def)

lemma slice_last: "0 < n \<Longrightarrow> slice (- int n) None xs = drop (length xs - n) xs"
  by (auto simp add: slice_def rel_index_def Let_def max_def nat_diff_distrib')

lemma js_or_alt: "js_or a b = (if a \<in> {None, Some []} then b else a)"
  by (auto simp add: js_or_def truthy_def split: option.splits)

lemma DailyStat_rebuild: "map (\<lambda>d. \<lparr>day = day d, tweets = tweets d\<rparr>) data = data"
  by (induction data) auto

lemma first_seen_snoc:
  "first_seen (qs @ [q]) = first_seen qs @ (if q \<in> set qs then [] else [q])"
proof -
  have f: "filter (\<lambda>i. (qs @ [q]) ! i \<notin> set (take i (qs @ [q]))) [0..<length qs]
         = filter (\<lambda>i. qs ! i \<notin> set (take i qs)) [0..<length qs]"
    by (rule filter_cong) (auto simp: nth_append)
  have m: "map (\<lambda>i. (qs @ [q]) ! i) (filter (\<lambda>i. qs ! i \<notin> set (take i qs)) [0..<length qs])
         = map (\<lambda>i. qs ! i) (filter (\<lambda>i. qs ! i \<notin> set (take i qs)) [0..<length qs])"
    by (rule map_cong) (auto simp: nth_append)
  show ?thesis
    by (simp add: first_seen_def f m del: take_append) simp
qed

lemma set_first_seen: "set (first_seen qs) = set qs"
  by (induction qs rule: rev_induct) (auto simp: first_seen_snoc, simp add: first_seen_def)

lemma distinct_first_seen: "distinct (first_seen qs)"
  by (induction qs rule: rev_induct)
     (auto simp: first_seen_snoc set_first_seen, simp add: first_seen_def)

lemma fold_Set_add: "fold (\<lambda>t acc. Set_add (f t) acc) xs [] = first_seen (map f xs)"
proof (induction xs rule: rev_induct)
  case Nil
  show ?case by (simp add: first_seen_def)
next
  case (snoc x xs)
  then show ?case
    by (simp add: first_seen_snoc Set_add_def set_first_seen)
qed

section \<open>Facts about the API client\<close>

lemma searchParams_set_fresh: "k \<notin> fst ` set ps \<Longrightarrow> searchParams_set k v ps = ps @ [(k, v)]"
  by (induction ps) auto

lemma fold_set_entry:
  "distinct (map fst es) \<Longrightarrow> fst ` set es \<inter> fst ` set (searchParams u) = {} \<Longrightarrow>
   fold set_entry es u =
     u\<lparr>searchParams := searchParams u @ map (\<lambda>e. (fst e, js_String (snd e))) (filter present es)\<rparr>"
proof (induction es arbitrary: u)
  case Nil
  show ?case by simp
next
  case (Cons e es)
  obtain k v where e: "e = (k, v)" by (cases e)
  have fresh: "k \<notin> fst ` set (searchParams u)"
    using Cons.prems(2) e by auto
  have d: "distinct (map fst es)" and knew: "k \<notin> fst ` set es"
    using Cons.prems(1) e by auto
  show ?case
  proof (cases "present e")
    case True
    let ?u = "u\<lparr>searchParams := searchParams u @ [(k, js_String v)]\<rparr>"
    have step: "set_entry e u = ?u"
      using True e fresh by (simp add: set_entry_def present_def searchParams_set_fresh)
    have disj: "fst ` set es \<inter> fst ` set (searchParams ?u) = {}"
      using Cons.prems(2) knew by auto
    show ?thesis
      using Cons.IH [OF d disj] True e step by simp
  next
    case False
    have step: "set_entry e u = u"
      using False e by (auto simp add: set_entry_def present_def)
    have disj: "fst ` set es \<inter> fst ` set (searchParams u) = {}"
      using Cons.prems(2) by auto
    show ?thesis
      using Cons.IH [OF d disj] False e step by simp
  qed
qed

lemma request_trace:
  "API_BASE_URL env \<noteq> [] \<Longrightarrow> new_URL p path (API_BASE_URL env) = Some url0 \<Longrightarrow>
   snd (request p env path search) =
     [\<lparr>call_url = URL_toString p (set_entries search url0),
       call_headers = [(''Authorization'', ''Bearer '' @ API_TOKEN env)]\<rparr>]"
  by (simp add: request_def Let_def split: option.splits)

section \<open>Facts about the live feed\<close>

lemma fold_push: "fold (\<lambda>x acc. push acc (f x)) xs acc = acc @ map f xs"
  by (induction xs arbitrary: acc) (simp_all add: push_def)

lemma items_append:
  "items td nd = map tweet_item (or_empty td) @ map news_item (or_empty nd)"
  by (simp add: items_def fold_push)

lemma starts_with_iff: "starts_with hs ns \<longleftrightarrow> (\<exists>ss. hs = ns @ ss)"
  by (induction hs ns rule: starts_with.induct) auto

lemma str_includes_iff: "str_includes hs ns \<longleftrightarrow> (\<exists>ps ss. hs = ps @ ns @ ss)"
proof (induction hs)
  case Nil
  show ?case by (simp add: starts_with_iff)
next
  case (Cons h hs)
  show ?case
  proof
    assume "str_includes (h # hs) ns"
    then consider "starts_with (h # hs) ns" | "str_includes hs ns" by auto
    then show "\<exists>ps ss. h # hs = ps @ ns @ ss"
    proof cases
      case 1
      then obtain ss where "h # hs = ns @ ss" by (auto simp add: starts_with_iff)
      then have "h # hs = [] @ ns @ ss" by simp
      then show ?thesis by blast
    next
      case 2
      then obtain ps ss where "hs = ps @ ns @ ss" using Cons.IH by blast
      then have "h # hs = (h # ps) @ ns @ ss" by simp
      then show ?thesis by blast
    qed
  next
    assume "\<exists>ps ss. h # hs = ps @ ns @ ss"
    then obtain ps ss where eq: "h # hs = ps @ ns @ ss" by blast
    show "str_includes (h # hs) ns"
    proof (cases ps)
      case Nil
      with eq have "starts_with (h # hs) ns" by (auto simp add: starts_with_iff)
      then show ?thesis by simp
    next
      case (Cons p ps')
      with eq have "hs = ps' @ ns @ ss" by simp
      then have "str_includes hs ns" using Cons.IH by blast
      then show ?thesis by simp
    qed
  qed
qed

lemma str_includes_empty: "str_includes hs []"
  by (induction hs) simp_all

lemma keep_matches: "toLowerCase [] = [] \<Longrightarrow> keep toLowerCase f it = matches toLowerCase f it"
  by (cases "ftype f")
     (auto simp add: keep_def matches_def normalize_def or_default_def Let_def str_includes_empty
           split: option.splits)

lemma mset_insert_by: "mset (insert_by cmp x ys) = add_mset x (mset ys)"
  by (induction ys) auto

lemma mset_Array_sort: "mset (Array_sort cmp xs) = mset xs"
  by (induction xs) (simp_all add: Array_sort_def mset_insert_by)

lemma set_insert_by: "set (insert_by cmp x ys) = insert x (set ys)"
  by (induction ys) auto

lemma sorted_insert_by:
  "sorted_wrt (\<lambda>a b. key b \<le> key a) ys \<Longrightarrow>
   sorted_wrt (\<lambda>a b. key b \<le> key a) (insert_by (\<lambda>a b. key b - key a) x ys)"
  for key :: "'a \<Rightarrow> int"
  by (induction ys) (auto simp add: set_insert_by)

lemma sorted_Array_sort:
  "sorted_wrt (\<lambda>a b. key b \<le> key a) (Array_sort (\<lambda>a b. key b - key a) xs)"
  for key :: "'a \<Rightarrow> int"
  by (induction xs) (simp_all add: Array_sort_def sorted_insert_by)

lemma time_of_alt:
  "time_of getTime it =
     (case Item.ts it of None \<Rightarrow> 0 | Some s \<Rightarrow> (case getTime s of None \<Rightarrow> 0 | Some n \<Rightarrow> n))"
  by (simp add: time_of_def num_or_def split: option.splits)

section \<open>Summary statistics\<close>

text \<open>
  C1, as stated, fails for the tweet: with both timestamps of the first tweet present,
  the most-recent-tweet value of \<open>stats\<close> is the fetch timestamp, not the creation
  timestamp.
\<close>

theorem stats_lastFetched_counterexample:
  "lastFetched (stats (Some [\<lparr>tweet_id = ''1'', Tweet.query = ''q'', user_handle = ''h'',
       user_name = ''n'', tweet_text = ''x'', Tweet.link = ''l'',
       tweet_created_at = Some ''2024-01-01'',
       Tweet.fetched_at = Some ''2024-01-02''\<rparr>]) None) = Some ''2024-01-02''
   \<and> lastFetched (stats (Some [\<lparr>tweet_id = ''1'', Tweet.query = ''q'', user_handle = ''h'',
       user_name = ''n'', tweet_text = ''x'', Tweet.link = ''l'',
       tweet_created_at = Some ''2024-01-01'',
       Tweet.fetched_at = Some ''2024-01-02''\<rparr>]) None) \<noteq> Some ''2024-01-01''"
  by (simp add: stats_def first_elem_def js_or_def truthy_def)

text \<open>
  C1, amended: for every tweet collection and news collection with a first element, the
  most-recent-tweet timestamp is the fetch timestamp of the first tweet, and its creation
  timestamp when the fetch timestamp is absent or empty; the most-recent-news timestamp
  is the fetch timestamp of the first news item, and its creation timestamp when the
  fetch timestamp is absent or empty.
\<close>

theorem stats_timestamps:
  "lastFetched (stats (Some (t # tws)) nd) =
     (if Tweet.fetched_at t \<in> {None, Some []} then tweet_created_at t else Tweet.fetched_at t)
   \<and> lastNews (stats td (Some (n # ns))) =
     (if News.fetched_at n \<in> {None, Some []} then news_created_at n else News.fetched_at n)"
  by (auto simp add: stats_def first_elem_def js_or_def truthy_def split: option.splits)

text \<open>
  C10: for absent or empty tweet and news data, \<open>stats\<close> returns a total of 0, a
  distinct-query count of 0 and absent most-recent timestamps. \<open>stats\<close> has no
  failing branch: the first element is read through \<open>first_elem\<close>.
\<close>

theorem stats_empty:
  "stats None None
     = \<lparr>totalTweets = 0, uniqueQueries = 0, lastFetched = None, lastNews = None\<rparr>
   \<and> stats (Some []) None
     = \<lparr>totalTweets = 0, uniqueQueries = 0, lastFetched = None, lastNews = None\<rparr>
   \<and> stats None (Some [])
     = \<lparr>totalTweets = 0, uniqueQueries = 0, lastFetched = None, lastNews = None\<rparr>
   \<and> stats (Some []) (Some [])
     = \<lparr>totalTweets = 0, uniqueQueries = 0, lastFetched = None, lastNews = None\<rparr>"
  by (simp add: stats_def first_elem_def js_or_def truthy_def num_or_def Set_size_def Set_new_def)

section \<open>Chart series\<close>

text \<open>
  C2: the daily chart series is the collection reversed and then cut to the last 14
  entries of the reversed collection; 20 days \<open>d1\<close> to \<open>d20\<close> give \<open>d14\<close> down to
  \<open>d1\<close>.
\<close>

theorem DailyChart_series:
  "DailyChart data = drop (length (rev data) - 14) (rev data)
   \<and> DailyChart [d1, d2, d3, d4, d5, d6, d7, d8, d9, d10,
                  d11, d12, d13, d14, d15, d16, d17, d18, d19, d20]
     = [d14, d13, d12, d11, d10, d9, d8, d7, d6, d5, d4, d3, d2, d1]"
  by (simp add: DailyChart_def slice_last [of 14, simplified] DailyStat_rebuild del: list.map)

text \<open>
  C9: the pie chart uses the first 8 entries of the response, fewer when the response is
  shorter, unchanged and in order; of 12 entries it uses the entries 1 to 8.
\<close>

theorem QueryPie_first_eight:
  "QueryPie data = take 8 data
   \<and> QueryPie [q1, q2, q3, q4, q5, q6, q7, q8, q9, q10, q11, q12]
     = [q1, q2, q3, q4, q5, q6, q7, q8]"
  by (simp add: QueryPie_def slice_from_start [of 8, simplified])

text \<open>
  C8: the timeline, which projects every tweet and then takes 50, is the projection of
  the first 50 tweets to the pair of the creation timestamp (the fetch timestamp when
  the creation timestamp is absent or empty) and the query.
\<close>

theorem timeline_take_then_project:
  "timeline (Some tws) =
     map (\<lambda>t. \<lparr>TimelinePoint.ts =
                  (if tweet_created_at t \<in> {None, Some []} then Tweet.fetched_at t
                   else tweet_created_at t),
               TimelinePoint.query = Tweet.query t\<rparr>) (take 50 tws)"
  by (simp add: timeline_def take_map js_or_alt slice_from_start [of 50, simplified])

text \<open>
  C7: the distinct queries of a tweet collection are its query tags in first-seen order,
  each exactly once; the queries a, b, a, c give a, b, c.
\<close>

theorem queries_first_seen:
  "queries (Some tws) = first_seen (map Tweet.query tws)
   \<and> distinct (queries (Some tws))
   \<and> set (queries (Some tws)) = set (map Tweet.query tws)
   \<and> queries (Some (map (\<lambda>q. t\<lparr>Tweet.query := q\<rparr>) [''a'', ''b'', ''a'', ''c'']))
     = [''a'', ''b'', ''c'']"
  by (simp add: queries_def Array_from_def fold_Set_add distinct_first_seen set_first_seen)
     (simp add: first_seen_def Set_add_def)

section \<open>The API client\<close>

text \<open>
  C5: when the configured base URL is absent or empty, \<open>request\<close> fails with the
  configuration error and has made no network call.
\<close>

theorem request_without_base_url:
  "VITE_API_BASE_URL env = None \<or> VITE_API_BASE_URL env = Some [] \<Longrightarrow>
   request p env path search
     = (Inl (Error ''API base URL is not set (VITE_API_BASE_URL).''), [])"
  by (auto simp add: request_def API_BASE_URL_def or_default_def)

theorem request_without_base_url_witness:
  "request example_platform \<lparr>VITE_API_BASE_URL = None, VITE_API_TOKEN = Some ''secret''\<rparr>
     ''/tweets'' (Some example_search)
   = (Inl (Error ''API base URL is not set (VITE_API_BASE_URL).''), [])"
  using request_without_base_url
    [of "\<lparr>VITE_API_BASE_URL = None, VITE_API_TOKEN = Some ''secret''\<rparr>" example_platform
        "''/tweets''" "Some example_search"]
  by simp

text \<open>
  C6: once the request has reached the network and a response has arrived, a status
  outside 200 to 299 makes \<open>request\<close> fail with the message \<open>API\<close>, the status in
  decimal, a colon and the body text as received; a status within 200 to 299 makes it
  return whatever the JSON decoder yields for the body, with no further check.
\<close>

theorem request_response:
  assumes "API_BASE_URL env \<noteq> []"
    and "new_URL p path (API_BASE_URL env) = Some url0"
    and "fetch p \<lparr>call_url = URL_toString p (set_entries search url0),
                  call_headers = [(''Authorization'', ''Bearer '' @ API_TOKEN env)]\<rparr> = Some res"
  shows "fst (request p env path search) =
     (if 200 \<le> status res \<and> status res \<le> 299
      then (case JSON_parse p (body res) of None \<Rightarrow> Inl SyntaxError | Some j \<Rightarrow> Inr j)
      else Inl (Error (''API '' @ decimal (status res) @ '': '' @ body res)))"
  using assms by (simp add: request_def Let_def ok_def split: option.splits)

theorem request_response_witness:
  "fst (fetchNews example_platform example_env) = Inl (Error ''API 500: boom'')
   \<and> fst (fetchDailyStats example_platform example_env) = Inr ''[]''"
  using request_response [of example_env example_platform "''/news''"
          "\<lparr>location = ''http://api/news'', searchParams = []\<rparr>" None
          "\<lparr>status = 500, body = ''boom''\<rparr>"]
        request_response [of example_env example_platform "''/stats/daily''"
          "\<lparr>location = ''http://api/stats/daily'', searchParams = []\<rparr>" None
          "\<lparr>status = 200, body = ''[]''\<rparr>"]
  by (simp add: fetchNews_def fetchDailyStats_def example_platform_def example_env_def
        API_BASE_URL_def API_TOKEN_def or_default_def set_entries_def digit_def)

text \<open>
  C4: for a parameter record (its keys are distinct) and a path without a query of its
  own, the URL that \<open>request\<close> fetches has exactly the entries with a present value
  as its query pairs, each value stringified: no key whose value is undefined or null
  occurs in the query, and every other key occurs with its value as a string.
\<close>

theorem request_query_string:
  assumes base: "API_BASE_URL env \<noteq> []"
    and url: "new_URL p path (API_BASE_URL env) = Some url0"
    and empty: "searchParams url0 = []"
    and keys: "distinct (map fst es)"
  shows "map call_url (snd (request p env path (Some es)))
           = [URL_toString p (set_entries (Some es) url0)]
    \<and> location (set_entries (Some es) url0) = location url0
    \<and> searchParams (set_entries (Some es) url0)
        = map (\<lambda>e. (fst e, js_String (snd e)))
            (filter (\<lambda>e. snd e \<noteq> Undefined \<and> snd e \<noteq> Null) es)
    \<and> (\<forall>e \<in> set es.
          if snd e = Undefined \<or> snd e = Null
          then \<not> searchParams_has (fst e) (searchParams (set_entries (Some es) url0))
          else searchParams_get (fst e) (searchParams (set_entries (Some es) url0))
                 = Some (js_String (snd e)))"
proof -
  let ?u = "set_entries (Some es) url0"
  let ?ps = "map (\<lambda>e. (fst e, js_String (snd e))) (filter present es)"
  have u: "?u = url0\<lparr>searchParams := ?ps\<rparr>"
    using fold_set_entry [OF keys, of url0] empty by (simp add: set_entries_def)
  have sp: "searchParams ?u = ?ps" by (simp add: u)
  have fst_ps: "map fst ?ps = map fst (filter present es)" by (simp add: comp_def)
  have dps: "distinct (map fst ?ps)"
    unfolding fst_ps using keys by (rule distinct_map_filter)
  have absent: "\<not> searchParams_has (fst e) ?ps" if "e \<in> set es" "\<not> present e" for e
  proof
    assume "searchParams_has (fst e) ?ps"
    then obtain e' where e': "e' \<in> set es" "present e'" "fst e' = fst e"
      by (auto simp add: searchParams_has_def)
    with keys that(1) have "e' = e" by (meson distinct_map inj_onD)
    with e'(2) that(2) show False by simp
  qed
  have there: "searchParams_get (fst e) ?ps = Some (js_String (snd e))"
    if "e \<in> set es" "present e" for e
  proof -
    have "(fst e, js_String (snd e)) \<in> set ?ps" using that by auto
    with dps show ?thesis unfolding searchParams_get_def by (rule map_of_is_SomeI)
  qed
  have trace: "map call_url (snd (request p env path (Some es))) = [URL_toString p ?u]"
    by (simp add: request_trace [OF base url])
  have loc: "location ?u = location url0" by (simp add: u)
  have sp': "searchParams ?u
      = map (\<lambda>e. (fst e, js_String (snd e)))
          (filter (\<lambda>e. snd e \<noteq> Undefined \<and> snd e \<noteq> Null) es)"
    using sp by (simp add: present_def [abs_def])
  have each: "\<forall>e \<in> set es.
          if snd e = Undefined \<or> snd e = Null
          then \<not> searchParams_has (fst e) (searchParams ?u)
          else searchParams_get (fst e) (searchParams ?u) = Some (js_String (snd e))"
    unfolding sp using absent there by (auto simp add: present_def)
  from trace loc sp' each show ?thesis by blast
qed

theorem request_query_string_witness:
  "map call_url (snd (fetchTweets example_platform example_env (Some example_search)))
     = [''http://api/tweets?search=abc&limit=12'']
   \<and> searchParams (set_entries (Some example_search)
                     \<lparr>location = ''http://api/tweets'', searchParams = []\<rparr>)
     = [(''search'', ''abc''), (''limit'', ''12'')]"
proof -
  have base: "API_BASE_URL example_env \<noteq> []"
    by (simp add: API_BASE_URL_def example_env_def or_default_def)
  have url: "new_URL example_platform ''/tweets'' (API_BASE_URL example_env)
               = Some \<lparr>location = ''http://api/tweets'', searchParams = []\<rparr>"
    by (simp add: API_BASE_URL_def example_env_def or_default_def example_platform_def)
  have empty: "searchParams \<lparr>location = ''http://api/tweets'', searchParams = []\<rparr> = []"
    by simp
  have keys: "distinct (map fst example_search)"
    by (simp add: example_search_def)
  have twelve: "Number_toString 12 = ''12''"
    by (simp add: Number_toString_def digit_def)
  show ?thesis
    using request_query_string [OF base url empty keys]
    by (simp add: fetchTweets_def example_search_def example_platform_def twelve)
qed

section \<open>The live feed\<close>

text \<open>
  C3: over a \<open>toLowerCase\<close> that maps the empty string to itself, the live feed keeps
  exactly the merged items that match the filter (every item for the kind all or an
  absent or empty value, else those whose lower-cased label or text contains the
  lower-cased value), orders the kept items by descending time, where the time of an
  absent or unparsable timestamp is 0, and returns the first 10 of them at most.
\<close>

theorem entries_live_feed:
  assumes "toLowerCase [] = []"
  shows "filtered toLowerCase td nd f = filter (matches toLowerCase f) (items td nd)
    \<and> mset (sorted_feed toLowerCase getTime td nd f) = mset (filtered toLowerCase td nd f)
    \<and> sorted_wrt (\<lambda>a b. time_of getTime b \<le> time_of getTime a)
         (sorted_feed toLowerCase getTime td nd f)
    \<and> time_of getTime it =
         (case Item.ts it of None \<Rightarrow> 0
          | Some s \<Rightarrow> (case getTime s of None \<Rightarrow> 0 | Some n \<Rightarrow> n))
    \<and> entries toLowerCase getTime td nd f = take 10 (sorted_feed toLowerCase getTime td nd f)
    \<and> length (entries toLowerCase getTime td nd f) \<le> 10"
proof -
  have k: "keep toLowerCase f = matches toLowerCase f"
    using assms by (auto simp add: keep_matches)
  have a: "filtered toLowerCase td nd f = filter (matches toLowerCase f) (items td nd)"
    by (simp add: filtered_def k)
  have b: "mset (sorted_feed toLowerCase getTime td nd f) = mset (filtered toLowerCase td nd f)"
    by (simp add: sorted_feed_def mset_Array_sort)
  have c: "sorted_wrt (\<lambda>a b. time_of getTime b \<le> time_of getTime a)
         (sorted_feed toLowerCase getTime td nd f)"
    unfolding sorted_feed_def compare_ts_def [abs_def] by (rule sorted_Array_sort)
  have e: "entries toLowerCase getTime td nd f = take 10 (sorted_feed toLowerCase getTime td nd f)"
    by (simp add: entries_def slice_from_start [of 10, simplified])
  have l: "length (entries toLowerCase getTime td nd f) \<le> 10"
    by (simp add: e)
  from a b c time_of_alt e l show ?thesis by blast
qed

theorem entries_live_feed_witness:
  "example_toLowerCase [] = []
   \<and> map Item.link
       (entries example_toLowerCase example_getTime (Some example_tweets) (Some example_news)
          \<lparr>ftype = FSite, fvalue = Some ''Example.COM''\<rparr>)
     = [''http://example.com/n1'', ''t1'', ''http://other.org/n2'', ''t3'']
   \<and> length
       (entries example_toLowerCase example_getTime (Some example_tweets) (Some example_news)
          \<lparr>ftype = FSite, fvalue = Some ''Example.COM''\<rparr>) \<le> 10"
proof -
  have h: "example_toLowerCase [] = []"
    by (simp add: example_toLowerCase_def)
  have v: "map Item.link
       (entries example_toLowerCase example_getTime (Some example_tweets) (Some example_news)
          \<lparr>ftype = FSite, fvalue = Some ''Example.COM''\<rparr>)
     = [''http://example.com/n1'', ''t1'', ''http://other.org/n2'', ''t3'']"
    by code_simp
  have "length
       (entries example_toLowerCase example_getTime (Some example_tweets) (Some example_news)
          \<lparr>ftype = FSite, fvalue = Some ''Example.COM''\<rparr>) \<le> 10"
    using entries_live_feed
      [where toLowerCase = example_toLowerCase and getTime = example_getTime
         and td = "Some example_tweets" and nd = "Some example_news"
         and f = "\<lparr>ftype = FSite, fvalue = Some ''Example.COM''\<rparr>", OF h]
    by blast
  with h v show ?thesis by simp
qed

end
